theory Spec2Isabelle
  imports Complex_Main
begin

section \<open>Values, exceptions and messages\<close>

text \<open>
  The values that \<^verbatim>\<open>response.json()\<close> and \<^verbatim>\<open>yaml.safe_load\<close> hand to the program.
  Python's \<^verbatim>\<open>None\<close> is \<open>JNull\<close>, a \<^verbatim>\<open>dict\<close> is an association list that is read with
  \<open>map_of\<close> (the keys of a dict are unique), a \<^verbatim>\<open>float\<close> is the rational it denotes.
\<close>

datatype json =
    JNull
  | JBool bool
  | JInt int
  | JFloat rat
  | JStr string
  | JArr "json list"
  | JObj "(string \<times> json) list"

text \<open>
  The exception classes the program can meet. All of them derive from \<^verbatim>\<open>Exception\<close>.
  \<open>RequestsJSONDecodeError\<close> is the decode error of recent versions of the HTTP library
  (a \<^verbatim>\<open>RequestException\<close> and a \<^verbatim>\<open>ValueError\<close> at once), \<open>JSONDecodeError\<close> the one
  of the standard library (a \<^verbatim>\<open>ValueError\<close> only).
\<close>

datatype exc_class =
    RequestException
  | HTTPError
  | ConnectionError
  | Timeout
  | RequestsJSONDecodeError
  | JSONDecodeError
  | ValueError
  | TypeError
  | KeyError
  | AttributeError
  | ZeroDivisionError
  | OSError
  | FileNotFoundError
  | YAMLError
  | OtherException

text \<open>
  An f-string is the list of its pieces: literal text, \<^verbatim>\<open>str\<close> of a value, \<^verbatim>\<open>str\<close> of an
  exception, a number. An exception carries its class and its message.
\<close>

datatype piece = Lit string | Str json | ExcStr exn | Num int
  and exn = Exn exc_class "piece list"

fun exn_class :: "exn \<Rightarrow> exc_class" where
  "exn_class (Exn c m) = c"

fun is_RequestException :: "exc_class \<Rightarrow> bool" where
  "is_RequestException RequestException = True"
| "is_RequestException HTTPError = True"
| "is_RequestException ConnectionError = True"
| "is_RequestException Timeout = True"
| "is_RequestException RequestsJSONDecodeError = True"
| "is_RequestException _ = False"

fun is_ValueError :: "exc_class \<Rightarrow> bool" where
  "is_ValueError ValueError = True"
| "is_ValueError RequestsJSONDecodeError = True"
| "is_ValueError JSONDecodeError = True"
| "is_ValueError _ = False"



subsection \<open>Operations of the language on these values\<close>

text \<open>\<^verbatim>\<open>not v\<close> is false exactly on the truthy values.\<close>

fun truthy :: "json \<Rightarrow> bool" where
  "truthy JNull = False"
| "truthy (JBool b) = b"
| "truthy (JInt n) = (n \<noteq> 0)"
| "truthy (JFloat x) = (x \<noteq> 0)"
| "truthy (JStr s) = (s \<noteq> [])"
| "truthy (JArr xs) = (xs \<noteq> [])"
| "truthy (JObj kvs) = (kvs \<noteq> [])"

text \<open>\<^verbatim>\<open>v[k]\<close> with a string key.\<close>

fun py_subscript :: "json \<Rightarrow> string \<Rightarrow> exn + json" where
  "py_subscript (JObj kvs) k =
     (case map_of kvs k of
        None \<Rightarrow> Inl (Exn KeyError [Lit k])
      | Some v \<Rightarrow> Inr v)"
| "py_subscript (JArr xs) k = Inl (Exn TypeError [Lit ''list indices must be integers or slices, not str''])"
| "py_subscript (JStr s) k = Inl (Exn TypeError [Lit ''string indices must be integers''])"
| "py_subscript v k = Inl (Exn TypeError [Lit ''object is not subscriptable''])"

text \<open>\<^verbatim>\<open>v.get(k)\<close> and \<^verbatim>\<open>v.get(k, d)\<close>: only a dict has the method.\<close>

fun py_get_default :: "json \<Rightarrow> string \<Rightarrow> json \<Rightarrow> exn + json" where
  "py_get_default (JObj kvs) k d =
     (case map_of kvs k of
        None \<Rightarrow> Inr d
      | Some v \<Rightarrow> Inr v)"
| "py_get_default v k d = Inl (Exn AttributeError [Lit ''object has no attribute get''])"

definition py_get :: "json \<Rightarrow> string \<Rightarrow> exn + json" where
  "py_get v k = py_get_default v k JNull"

text \<open>\<^verbatim>\<open>for x in v\<close>: the elements of a list, the characters of a string, the keys of a dict.\<close>

fun py_iter :: "json \<Rightarrow> exn + json list" where
  "py_iter (JArr xs) = Inr xs"
| "py_iter (JStr s) = Inr (map (\<lambda>c. JStr [c]) s)"
| "py_iter (JObj kvs) = Inr (map (\<lambda>kv. JStr (fst kv)) kvs)"
| "py_iter v = Inl (Exn TypeError [Lit ''object is not iterable''])"

fun py_len :: "json \<Rightarrow> exn + nat" where
  "py_len (JArr xs) = Inr (length xs)"
| "py_len (JStr s) = Inr (length s)"
| "py_len (JObj kvs) = Inr (length kvs)"
| "py_len v = Inl (Exn TypeError [Lit ''object has no len()''])"

fun intercalate :: "string \<Rightarrow> string list \<Rightarrow> string" where
  "intercalate sep [] = []"
| "intercalate sep [s] = s"
| "intercalate sep (s # t # ss) = s @ sep @ intercalate sep (t # ss)"

fun as_str :: "json \<Rightarrow> string option" where
  "as_str (JStr s) = Some s"
| "as_str v = None"

text \<open>\<^verbatim>\<open>sep.join(v)\<close>: every element must be a string.\<close>

definition py_join :: "string \<Rightarrow> json \<Rightarrow> exn + string" where
  "py_join sep v =
     (case py_iter v of
        Inl e \<Rightarrow> Inl (Exn TypeError [Lit ''can only join an iterable''])
      | Inr xs \<Rightarrow>
          (if list_all (\<lambda>x. as_str x \<noteq> None) xs
           then Inr (intercalate sep (map (\<lambda>x. the (as_str x)) xs))
           else Inl (Exn TypeError [Lit ''sequence item: expected str instance''])))"

text \<open>\<^verbatim>\<open>60 / v\<close>: true division; the result is the exact quotient.\<close>

fun div60 :: "json \<Rightarrow> exn + rat" where
  "div60 (JInt n) =
     (if n = 0 then Inl (Exn ZeroDivisionError [Lit ''division by zero''])
      else Inr (60 / of_int n))"
| "div60 (JFloat x) =
     (if x = 0 then Inl (Exn ZeroDivisionError [Lit ''float division by zero''])
      else Inr (60 / x))"
| "div60 (JBool b) =
     (if b then Inr 60 else Inl (Exn ZeroDivisionError [Lit ''division by zero'']))"
| "div60 v = Inl (Exn TypeError [Lit ''unsupported operand type(s) for /''])"

subsection \<open>Paths\<close>

text \<open>\<^verbatim>\<open>os.path.dirname\<close> on a POSIX system.\<close>

definition dirname :: "string \<Rightarrow> string" where
  "dirname p =
     (let head = rev (dropWhile (\<lambda>c. c \<noteq> CHR ''/'') (rev p))
      in if head \<noteq> [] \<and> \<not> list_all (\<lambda>c. c = CHR ''/'') head
         then rev (dropWhile (\<lambda>c. c = CHR ''/'') (rev head))
         else head)"

subsection \<open>Wall-clock readings\<close>

record datetime =
  year :: nat
  month :: nat
  day :: nat
  hour :: nat
  minute :: nat
  second :: nat
  microsecond :: nat

definition digit :: "nat \<Rightarrow> char" where
  "digit n = ''0123456789'' ! (n mod 10)"

text \<open>The last \<open>k\<close> decimal digits of \<open>n\<close>, padded with zeros.\<close>

fun pad :: "nat \<Rightarrow> nat \<Rightarrow> string" where
  "pad 0 n = []"
| "pad (Suc k) n = pad k (n div 10) @ [digit n]"

text \<open>\<^verbatim>\<open>datetime.isoformat()\<close>: the microseconds are left out when they are zero.\<close>

definition isoformat :: "datetime \<Rightarrow> string" where
  "isoformat d =
     pad 4 (year d) @ ''-'' @ pad 2 (month d) @ ''-'' @ pad 2 (day d) @ ''T'' @
     pad 2 (hour d) @ '':'' @ pad 2 (minute d) @ '':'' @ pad 2 (second d) @
     (if microsecond d = 0 then [] else ''.'' @ pad 6 (microsecond d))"

text \<open>\<^verbatim>\<open>strftime("%Y%m%d_%H%M%S")\<close>.\<close>

definition strftime_compact :: "datetime \<Rightarrow> string" where
  "strftime_compact d =
     pad 4 (year d) @ pad 2 (month d) @ pad 2 (day d) @ ''_'' @
     pad 2 (hour d) @ pad 2 (minute d) @ pad 2 (second d)"

section \<open>The world the program runs in\<close>

type_synonym row = "(string \<times> json) list"

text \<open>
  A \<^verbatim>\<open>DataFrame\<close> is represented by the list of dicts it is built from, one row for
  each dict, in order; the frame without arguments is the empty list, and \<^verbatim>\<open>df.empty\<close>
  asks whether there is no row. The number of rows and their order are those of the
  frame, and a column in which every row has a value and one of the values is a string
  keeps its entries as they are. What the library makes of a column of numbers is not
  represented: it chooses a type for the column, so that integers can become floats, and
  \<^verbatim>\<open>None\<close> becomes \<^verbatim>\<open>NaN\<close> where an entry is missing. Nothing below is stated about the
  values of such a column of the frame.
\<close>

type_synonym dataframe = "row list"

text \<open>\<^verbatim>\<open>pd.DataFrame(dicts)\<close>, in this representation.\<close>

definition DataFrame :: "row list \<Rightarrow> dataframe" where
  "DataFrame dicts = dicts"

datatype level = INFO | WARNING | ERROR

text \<open>
  Everything the program does to the outside is an event of the trace, in the order of
  the calls: a call of the logger, the GET request (URL, parameters, timeout), a call of
  \<^verbatim>\<open>time.sleep\<close>, of \<^verbatim>\<open>os.makedirs\<close>, of \<^verbatim>\<open>df.to_csv\<close>, of \<^verbatim>\<open>logging.basicConfig\<close> and
  of \<^verbatim>\<open>print\<close>.
\<close>

datatype event =
    Log level "piece list"
  | HttpGet "piece list" "(string \<times> string) list" json
  | Sleep rat
  | MakeDirs string
  | ToCsv string dataframe
  | BasicConfig json json json
  | Print "piece list"

record world =
  ticks :: nat
  trace :: "event list"

record response =
  status_code :: int
  reason :: string
  body :: "exn + json"

text \<open>
  What the outside answers. \<open>clock k\<close> is the reading of the \<open>k\<close>-th call of
  \<^verbatim>\<open>datetime.now()\<close>; \<open>requests_get\<close> raises or returns a response whose \<open>body\<close> is what
  \<^verbatim>\<open>response.json()\<close> will raise or return; \<open>load_yaml\<close> is what opening and parsing the
  configuration file raises or returns; the other fields say whether the library call
  raises.
\<close>

record env =
  clock :: "nat \<Rightarrow> datetime"
  requests_get :: "piece list \<Rightarrow> (string \<times> string) list \<Rightarrow> json \<Rightarrow> exn + response"
  makedirs :: "string \<Rightarrow> exn option"
  to_csv :: "string \<Rightarrow> dataframe \<Rightarrow> exn option"
  load_yaml :: "string \<Rightarrow> exn + json"
  logging_getattr :: "string \<Rightarrow> exn option"
  logging_basicConfig :: "json \<Rightarrow> json \<Rightarrow> json \<Rightarrow> exn option"

subsection \<open>Computations that change the world and may raise\<close>

type_synonym 'a io = "world \<Rightarrow> (exn + 'a) \<times> world"

definition ret_io :: "'a \<Rightarrow> 'a io" where
  "ret_io x w = (Inr x, w)"

definition raise_io :: "exn \<Rightarrow> 'a io" where
  "raise_io e w = (Inl e, w)"

definition bind_io :: "'a io \<Rightarrow> ('a \<Rightarrow> 'b io) \<Rightarrow> 'b io" where
  "bind_io m f w =
     (case m w of
        (Inl e, w') \<Rightarrow> (Inl e, w')
      | (Inr x, w') \<Rightarrow> f x w')"

definition seq_io :: "'a io \<Rightarrow> 'b io \<Rightarrow> 'b io" where
  "seq_io m n = bind_io m (\<lambda>_. n)"

text \<open>\<^verbatim>\<open>try: m  except Exception as e: h e\<close>.\<close>

definition try_except :: "'a io \<Rightarrow> (exn \<Rightarrow> 'a io) \<Rightarrow> 'a io" where
  "try_except m h w =
     (case m w of
        (Inl e, w') \<Rightarrow> h e w'
      | (Inr x, w') \<Rightarrow> (Inr x, w'))"

definition lift_io :: "exn + 'a \<Rightarrow> 'a io" where
  "lift_io r w = (r, w)"

definition may_raise :: "exn option \<Rightarrow> unit io" where
  "may_raise r w = (case r of None \<Rightarrow> (Inr (), w) | Some e \<Rightarrow> (Inl e, w))"

definition emit :: "event \<Rightarrow> unit io" where
  "emit ev w = (Inr (), w\<lparr>trace := trace w @ [ev]\<rparr>)"

definition logger :: "level \<Rightarrow> piece list \<Rightarrow> unit io" where
  "logger l msg = emit (Log l msg)"

text \<open>\<^verbatim>\<open>datetime.now()\<close>: the next reading of the clock.\<close>

definition now :: "env \<Rightarrow> datetime io" where
  "now E w = (Inr (clock E (ticks w)), w\<lparr>ticks := Suc (ticks w)\<rparr>)"

text \<open>
  \<^verbatim>\<open>time.sleep(d)\<close> refuses a negative length. It also refuses a length beyond what the
  clock of the platform can hold (about \<open>9.2e9\<close> seconds, with \<^verbatim>\<open>OverflowError\<close>); that
  case, which needs a configured rate below \<open>6.5e-9\<close> calls a minute, is left out.
\<close>

definition time_sleep :: "rat \<Rightarrow> unit io" where
  "time_sleep d =
     (if d < 0 then raise_io (Exn ValueError [Lit ''sleep length must be non-negative''])
      else emit (Sleep d))"

text \<open>\<^verbatim>\<open>response.raise_for_status()\<close> raises on the 4xx and 5xx codes.\<close>

definition raise_for_status :: "piece list \<Rightarrow> response \<Rightarrow> unit io" where
  "raise_for_status url r =
     (if 400 \<le> status_code r \<and> status_code r < 500
      then raise_io (Exn HTTPError
             ([Num (status_code r), Lit '' Client Error: '', Lit (reason r), Lit '' for url: ''] @ url))
      else if 500 \<le> status_code r \<and> status_code r < 600
      then raise_io (Exn HTTPError
             ([Num (status_code r), Lit '' Server Error: '', Lit (reason r), Lit '' for url: ''] @ url))
      else ret_io ())"

section \<open>The fetcher\<close>

text \<open>
  The fields of a \<^verbatim>\<open>CryptoDataFetcher\<close>. The constructor stores whatever the
  configuration holds under the keys, without a check.
\<close>

record fetcher =
  config :: json
  base_url :: json
  timeout :: json
  tracked_coins :: json

text \<open>\<^verbatim>\<open>self.config[k1][k2]...\<close>: the subscripts from left to right.\<close>

fun config_path :: "json \<Rightarrow> string list \<Rightarrow> exn + json" where
  "config_path v [] = Inr v"
| "config_path v (k # ks) =
     (case py_subscript v k of
        Inl e \<Rightarrow> Inl e
      | Inr v' \<Rightarrow> config_path v' ks)"

subsection \<open>\<^verbatim>\<open>_make_api_request\<close>\<close>

definition make_api_request ::
  "env \<Rightarrow> fetcher \<Rightarrow> json \<Rightarrow> (string \<times> string) list \<Rightarrow> json io" where
  "make_api_request E self endpoint params =
     (let url = [Str (base_url self), Str endpoint] in
      try_except
        (seq_io (logger INFO (Lit ''Making API request to: '' # url))
        (seq_io (emit (HttpGet url params (timeout self)))
        (bind_io (lift_io (requests_get E url params (timeout self))) (\<lambda>response.
         seq_io (raise_for_status url response)
        (bind_io (lift_io (config_path (config self) [''api'', ''coingecko'', ''rate_limit_per_minute''])) (\<lambda>rate.
         bind_io (lift_io (div60 rate)) (\<lambda>d.
         seq_io (time_sleep d)
                (lift_io (body response)))))))))
        (\<lambda>e.
           if is_RequestException (exn_class e)
           then seq_io (logger ERROR ([Lit ''API request failed for ''] @ url @ [Lit '': '', ExcStr e]))
                       (ret_io JNull)
           else if is_ValueError (exn_class e)
           then seq_io (logger ERROR ([Lit ''JSON parsing failed for ''] @ url @ [Lit '': '', ExcStr e]))
                       (ret_io JNull)
           else raise_io e))"

subsection \<open>\<^verbatim>\<open>fetch_market_data\<close>\<close>

definition fetch_market_data :: "env \<Rightarrow> fetcher \<Rightarrow> json io" where
  "fetch_market_data E self =
     bind_io (lift_io (config_path (config self) [''api'', ''coingecko'', ''endpoints'', ''market_data''])) (\<lambda>endpoint.
     bind_io (lift_io (py_join '','' (tracked_coins self))) (\<lambda>coins_string.
     (let params =
        [(''ids'', coins_string),
         (''vs_currency'', ''usd''),
         (''include_market_cap'', ''true''),
         (''include_24hr_vol'', ''true''),
         (''include_24hr_change'', ''true''),
         (''include_last_updated_at'', ''true'')]
      in
     bind_io (lift_io (py_len (tracked_coins self))) (\<lambda>n.
     seq_io (logger INFO [Lit ''Fetching market data for '', Num (int n), Lit '' cryptocurrencies''])
            (make_api_request E self endpoint params)))))"

subsection \<open>\<^verbatim>\<open>process_market_data\<close>\<close>

text \<open>
  The keys of a processed row after \<open>timestamp\<close>, each with the key of the raw record it
  is read from, in the order of the dict display.
\<close>

definition field_map :: "(string \<times> string) list" where
  "field_map =
     [(''coin_id'', ''id''),
      (''symbol'', ''symbol''),
      (''name'', ''name''),
      (''current_price'', ''current_price''),
      (''market_cap'', ''market_cap''),
      (''market_cap_rank'', ''market_cap_rank''),
      (''total_volume'', ''total_volume''),
      (''price_change_24h'', ''price_change_24h''),
      (''price_change_percentage_24h'', ''price_change_percentage_24h''),
      (''market_cap_change_24h'', ''market_cap_change_24h''),
      (''market_cap_change_percentage_24h'', ''market_cap_change_percentage_24h''),
      (''circulating_supply'', ''circulating_supply''),
      (''total_supply'', ''total_supply''),
      (''max_supply'', ''max_supply''),
      (''last_updated'', ''last_updated'')]"

text \<open>The \<^verbatim>\<open>coin.get(...)\<close> calls of the dict display, from top to bottom.\<close>

fun extract_fields :: "json \<Rightarrow> (string \<times> string) list \<Rightarrow> exn + row" where
  "extract_fields coin [] = Inr []"
| "extract_fields coin ((target, source) # fs) =
     (case py_get coin source of
        Inl e \<Rightarrow> Inl e
      | Inr v \<Rightarrow>
          (case extract_fields coin fs of
             Inl e \<Rightarrow> Inl e
           | Inr r \<Rightarrow> Inr ((target, v) # r)))"

text \<open>The dict display of the loop body: the clock is read first, then the fields.\<close>

definition processed_coin :: "env \<Rightarrow> json \<Rightarrow> row io" where
  "processed_coin E coin =
     bind_io (now E) (\<lambda>t.
     bind_io (lift_io (extract_fields coin field_map)) (\<lambda>r.
     ret_io ((''timestamp'', JStr (isoformat t)) # r)))"

text \<open>
  The \<^verbatim>\<open>for\<close> loop with its \<^verbatim>\<open>try\<close>. The handler builds its message with
  \<^verbatim>\<open>coin.get('id', 'unknown')\<close> before it logs; what that call raises leaves the loop.
\<close>

fun process_loop :: "env \<Rightarrow> json list \<Rightarrow> row list \<Rightarrow> row list io" where
  "process_loop E [] processed_data = ret_io processed_data"
| "process_loop E (coin # rest) processed_data =
     bind_io
       (try_except
          (bind_io (processed_coin E coin) (\<lambda>r. ret_io (processed_data @ [r])))
          (\<lambda>e.
             bind_io (lift_io (py_get_default coin ''id'' (JStr ''unknown''))) (\<lambda>i.
             seq_io (logger ERROR [Lit ''Error processing coin data for '', Str i, Lit '': '', ExcStr e])
                    (ret_io processed_data))))
       (\<lambda>processed_data'. process_loop E rest processed_data')"

definition process_market_data :: "env \<Rightarrow> fetcher \<Rightarrow> json \<Rightarrow> dataframe io" where
  "process_market_data E self raw_data =
     (if \<not> truthy raw_data
      then seq_io (logger WARNING [Lit ''No market data to process'']) (ret_io (DataFrame []))
      else
        bind_io (lift_io (py_iter raw_data)) (\<lambda>coins.
        bind_io (process_loop E coins []) (\<lambda>processed_data.
        (let df = DataFrame processed_data in
         seq_io (logger INFO [Lit ''Processed data for '', Num (int (length df)), Lit '' cryptocurrencies''])
                (ret_io df)))))"

subsection \<open>\<^verbatim>\<open>save_to_csv\<close>\<close>

definition save_to_csv :: "env \<Rightarrow> fetcher \<Rightarrow> dataframe \<Rightarrow> string io" where
  "save_to_csv E self df =
     (if df = []
      then seq_io (logger WARNING [Lit ''No data to save'']) (ret_io [])
      else
        bind_io (now E) (\<lambda>t.
        (let timestamp = strftime_compact t;
             filename = ''crypto_market_data_'' @ timestamp @ ''.csv'';
             filepath = ''data'' @ ''/'' @ ''raw'' @ ''/'' @ filename
         in
        try_except
          (seq_io (emit (MakeDirs (dirname filepath)))
          (seq_io (may_raise (makedirs E (dirname filepath)))
          (seq_io (emit (ToCsv filepath df))
          (seq_io (may_raise (to_csv E filepath df))
          (seq_io (logger INFO [Lit ''Data saved to '', Lit filepath])
                  (ret_io filepath))))))
          (\<lambda>e.
             seq_io (logger ERROR [Lit ''Error saving data to CSV: '', ExcStr e])
                    (ret_io [])))))"

subsection \<open>\<^verbatim>\<open>fetch_and_save_data\<close>\<close>

definition fetch_and_save_data :: "env \<Rightarrow> fetcher \<Rightarrow> bool io" where
  "fetch_and_save_data E self =
     try_except
       (seq_io (logger INFO [Lit ''Starting crypto data fetch and save process''])
       (bind_io (fetch_market_data E self) (\<lambda>raw_data.
        if \<not> truthy raw_data
        then seq_io (logger ERROR [Lit ''Failed to fetch market data'']) (ret_io False)
        else
          bind_io (process_market_data E self raw_data) (\<lambda>df.
          if df = []
          then seq_io (logger ERROR [Lit ''No data was processed'']) (ret_io False)
          else
            bind_io (save_to_csv E self df) (\<lambda>filepath.
            if filepath = []
            then seq_io (logger ERROR [Lit ''Failed to save data'']) (ret_io False)
            else
              seq_io (logger INFO [Lit ''Successfully completed data fetch and save. File: '', Lit filepath])
                     (ret_io True))))))
       (\<lambda>e.
          seq_io (logger ERROR [Lit ''Unexpected error in fetch_and_save_data: '', ExcStr e])
                 (ret_io False))"

subsection \<open>The constructor\<close>






subsection \<open>\<^verbatim>\<open>main\<close> and the script\<close>


definition initial_world :: world where
  "initial_world = \<lparr>ticks = 0, trace = []\<rparr>"



section \<open>A concrete run\<close>

text \<open>
  A configuration of the expected shape, a clock that advances by one second at each
  reading, and an outside where the file system and the logging library never fail.
  The first argument is the answer to the GET request.
\<close>

definition example_config :: json where
  "example_config =
     JObj [(''api'', JObj [(''coingecko'', JObj
              [(''base_url'', JStr ''https://api.coingecko.com/api/v3''),
               (''timeout'', JInt 30),
               (''rate_limit_per_minute'', JInt 30),
               (''endpoints'', JObj [(''market_data'', JStr ''/coins/markets'')])])]),
           (''cryptocurrencies'', JObj [(''tracked_coins'', JArr [JStr ''bitcoin'', JStr ''ethereum''])]),
           (''logging'', JObj
              [(''level'', JStr ''INFO''),
               (''format'', JStr ''%(message)s''),
               (''file'', JStr ''logs/crypto_data.log'')])]"

definition example_fetcher :: fetcher where
  "example_fetcher =
     \<lparr>config = example_config,
      base_url = JStr ''https://api.coingecko.com/api/v3'',
      timeout = JInt 30,
      tracked_coins = JArr [JStr ''bitcoin'', JStr ''ethereum'']\<rparr>"

definition example_clock :: "nat \<Rightarrow> datetime" where
  "example_clock k =
     \<lparr>year = 2024, month = 5, day = 17, hour = 9, minute = 30, second = k mod 60, microsecond = 0\<rparr>"

definition example_env :: "exn + response \<Rightarrow> env" where
  "example_env answer =
     \<lparr>clock = example_clock,
      requests_get = (\<lambda>url params t. answer),
      makedirs = (\<lambda>p. None),
      to_csv = (\<lambda>p df. None),
      load_yaml = (\<lambda>p. Inr example_config),
      logging_getattr = (\<lambda>s. None),
      logging_basicConfig = (\<lambda>l f p. None)\<rparr>"

definition ok_response :: "json \<Rightarrow> exn + response" where
  "ok_response v = Inr \<lparr>status_code = 200, reason = ''OK'', body = Inr v\<rparr>"


definition bitcoin :: json where
  "bitcoin = JObj [(''id'', JStr ''bitcoin''), (''symbol'', JStr ''btc''), (''current_price'', JInt 67000)]"

definition ethereum :: json where
  "ethereum = JObj [(''id'', JStr ''ethereum''), (''symbol'', JStr ''eth''), (''current_price'', JStr ''abc'')]"

section \<open>Reading a run\<close>

text \<open>
  \<^verbatim>\<open>df[name]\<close>: the entries of one column, from the first row to the last, as the dicts
  of the frame hold them.
\<close>

definition column :: "string \<Rightarrow> dataframe \<Rightarrow> json option list" where
  "column name df = map (\<lambda>r. map_of r name) df"

text \<open>
  What the dicts of a list hold under a key, dict by dict, before any frame is built
  from them: \<open>None\<close> where a dict has no such key, \<open>Some JNull\<close> where it holds
  \<^verbatim>\<open>None\<close> under it.
\<close>

definition values_under :: "string \<Rightarrow> row list \<Rightarrow> json option list" where
  "values_under key dicts = map (\<lambda>d. map_of d key) dicts"

text \<open>The lengths of the calls of \<^verbatim>\<open>time.sleep\<close> in a trace.\<close>

fun sleeps :: "event list \<Rightarrow> rat list" where
  "sleeps [] = []"
| "sleeps (Sleep d # es) = d # sleeps es"
| "sleeps (e # es) = sleeps es"

text \<open>The calls that write to the file system: creating a directory, writing the table.\<close>

fun is_fs_write :: "event \<Rightarrow> bool" where
  "is_fs_write (MakeDirs p) = True"
| "is_fs_write (ToCsv p df) = True"
| "is_fs_write e = False"

definition fs_writes :: "event list \<Rightarrow> event list" where
  "fs_writes es = filter is_fs_write es"

text \<open>The messages logged at level \<open>ERROR\<close>.\<close>

fun errors_logged :: "event list \<Rightarrow> piece list list" where
  "errors_logged [] = []"
| "errors_logged (Log ERROR m # es) = m # errors_logged es"
| "errors_logged (e # es) = errors_logged es"

text \<open>
  The row that the loop body builds from a record that is a dict, at the \<open>k\<close>-th reading of
  the clock, and the rows of a list of such records read from the \<open>k\<close>-th reading on.
\<close>

definition row_of :: "env \<Rightarrow> nat \<Rightarrow> (string \<times> json) list \<Rightarrow> row" where
  "row_of E k kvs =
     (''timestamp'', JStr (isoformat (clock E k))) #
     map (\<lambda>ts. (fst ts, case map_of kvs (snd ts) of None \<Rightarrow> JNull | Some v \<Rightarrow> v)) field_map"

fun rows_from :: "env \<Rightarrow> nat \<Rightarrow> (string \<times> json) list list \<Rightarrow> row list" where
  "rows_from E k [] = []"
| "rows_from E k (kvs # kvss) = row_of E k kvs # rows_from E (Suc k) kvss"

text \<open>The URL of a request, and the path that \<^verbatim>\<open>save_to_csv\<close> builds from a reading of the clock.\<close>

definition request_url :: "fetcher \<Rightarrow> json \<Rightarrow> piece list" where
  "request_url self endpoint = [Str (base_url self), Str endpoint]"

definition artifact_path :: "datetime \<Rightarrow> string" where
  "artifact_path t = ''data/raw/crypto_market_data_'' @ strftime_compact t @ ''.csv''"

text \<open>The world when \<^verbatim>\<open>fetch_and_save_data\<close> has logged that it starts.\<close>

definition started :: "world \<Rightarrow> world" where
  "started w = w\<lparr>trace := trace w @ [Log INFO [Lit ''Starting crypto data fetch and save process'']]\<rparr>"

subsection \<open>More of the concrete run\<close>

definition example_url :: "piece list" where
  "example_url = [Str (JStr ''https://api.coingecko.com/api/v3''), Str (JStr ''/coins/markets'')]"

definition example_params :: "(string \<times> string) list" where
  "example_params =
     [(''ids'', ''bitcoin,ethereum''),
      (''vs_currency'', ''usd''),
      (''include_market_cap'', ''true''),
      (''include_24hr_vol'', ''true''),
      (''include_24hr_change'', ''true''),
      (''include_last_updated_at'', ''true'')]"

text \<open>Three answers to the request: a timeout, a status 500, a body that is not JSON.\<close>

definition timeout_answer :: "exn + response" where
  "timeout_answer = Inl (Exn Timeout [Lit ''Read timed out''])"

definition server_error_answer :: "exn + response" where
  "server_error_answer =
     Inr \<lparr>status_code = 500, reason = ''Internal Server Error'', body = Inr (JArr [])\<rparr>"

definition undecodable_answer :: "exn + response" where
  "undecodable_answer =
     Inr \<lparr>status_code = 200, reason = ''OK'', body = Inl (Exn JSONDecodeError [Lit ''Expecting value''])\<rparr>"

text \<open>An outside whose disk is full, and one without the configuration file.\<close>

definition full_disk_env :: "exn + response \<Rightarrow> env" where
  "full_disk_env answer =
     (example_env answer)\<lparr>to_csv := (\<lambda>p df. Some (Exn OSError [Lit ''No space left on device'']))\<rparr>"


section \<open>Basic facts\<close>

lemmas io_defs = ret_io_def raise_io_def bind_io_def seq_io_def try_except_def lift_io_def
  may_raise_def emit_def logger_def




lemma sleeps_append: "sleeps (xs @ ys) = sleeps xs @ sleeps ys"
  by (induction xs rule: sleeps.induct) simp_all

lemma make_api_request_fs:
  "fs_writes (trace (snd (make_api_request E self endpoint params w))) = fs_writes (trace w)"
  by (simp add: make_api_request_def io_defs Let_def time_sleep_def raise_for_status_def fs_writes_def
      split: sum.splits prod.splits)

lemma fetch_market_data_fs:
  "fs_writes (trace (snd (fetch_market_data E self w))) = fs_writes (trace w)"
proof -
  have log: "fs_writes (trace w @ [Log INFO m]) = fs_writes (trace w)" for m
    by (simp add: fs_writes_def)
  show ?thesis
    by (simp add: fetch_market_data_def io_defs Let_def make_api_request_fs log
        split: sum.splits prod.splits)
qed

subsection \<open>The loop on records that are dicts\<close>

lemma extract_fields_mapping:
  "extract_fields (JObj kvs) fm =
   Inr (map (\<lambda>ts. (fst ts, case map_of kvs (snd ts) of None \<Rightarrow> JNull | Some v \<Rightarrow> v)) fm)"
  by (induction fm) (auto simp: py_get_def split: option.splits)

lemma processed_coin_mapping:
  "processed_coin E (JObj kvs) w = (Inr (row_of E (ticks w) kvs), w\<lparr>ticks := Suc (ticks w)\<rparr>)"
  by (simp add: processed_coin_def now_def io_defs extract_fields_mapping row_of_def)

lemma process_loop_mappings:
  "process_loop E (map JObj kvss) acc w =
   (Inr (acc @ rows_from E (ticks w) kvss), w\<lparr>ticks := ticks w + length kvss\<rparr>)"
proof (induction kvss arbitrary: acc w)
  case Nil
  then show ?case by (simp add: ret_io_def)
next
  case (Cons kvs kvss)
  show ?case
    using Cons.IH [of "acc @ [row_of E (ticks w) kvs]" "w\<lparr>ticks := Suc (ticks w)\<rparr>"]
    by (simp add: io_defs processed_coin_mapping)
qed

lemma length_rows_from: "length (rows_from E k kvss) = length kvss"
  by (induction kvss arbitrary: k) simp_all

lemma process_market_data_mappings:
  assumes "kvss \<noteq> []"
  shows "process_market_data E self (JArr (map JObj kvss)) w =
   (Inr (rows_from E (ticks w) kvss),
    w\<lparr>ticks := ticks w + length kvss,
      trace := trace w @ [Log INFO [Lit ''Processed data for '', Num (int (length kvss)), Lit '' cryptocurrencies'']]\<rparr>)"
  using assms
  by (simp add: process_market_data_def DataFrame_def Let_def io_defs process_loop_mappings
        length_rows_from)

lemma column_timestamp_rows_from:
  "column ''timestamp'' (rows_from E k kvss) =
   map (\<lambda>i. Some (JStr (isoformat (clock E i)))) [k..<k + length kvss]"
proof (induction kvss arbitrary: k)
  case Nil
  then show ?case by (simp add: column_def)
next
  case (Cons kvs kvss)
  have "[k..<k + length (kvs # kvss)] = k # [Suc k..<Suc k + length kvss]"
    by (subst upt_conv_Cons) simp_all
  with Cons.IH [of "Suc k"] show ?case
    by (simp add: column_def row_of_def)
qed

lemma map_of_map_fields:
  "distinct (map fst fm) \<Longrightarrow> (t, s) \<in> set fm \<Longrightarrow>
   map_of (map (\<lambda>ts. (fst ts, f (snd ts))) fm) t = Some (f s)"
  by (induction fm) force+

lemma field_map_distinct: "distinct (map fst field_map)"
  by (simp add: field_map_def)

lemma field_map_no_timestamp: "(''timestamp'', s) \<notin> set field_map"
  by (simp add: field_map_def)

lemma map_of_row_of:
  assumes "(target, source) \<in> set field_map"
  shows "map_of (row_of E k kvs) target =
         Some (case map_of kvs source of None \<Rightarrow> JNull | Some v \<Rightarrow> v)"
proof -
  from assms field_map_no_timestamp have "target \<noteq> ''timestamp''" by blast
  with map_of_map_fields [OF field_map_distinct assms] show ?thesis
    by (simp add: row_of_def)
qed

lemma column_rows_from:
  assumes "(target, source) \<in> set field_map"
  shows "column target (rows_from E k kvss) =
         map (\<lambda>kvs. Some (case map_of kvs source of None \<Rightarrow> JNull | Some v \<Rightarrow> v)) kvss"
proof (induction kvss arbitrary: k)
  case Nil
  then show ?case by (simp add: column_def)
next
  case (Cons kvs kvss)
  from Cons.IH [of "Suc k"] map_of_row_of [OF assms] show ?case
    by (simp add: column_def)
qed


lemma values_under_rows_from:
  assumes "(target, source) \<in> set field_map"
  shows "values_under target (rows_from E k kvss) =
         map (\<lambda>kvs. Some (case map_of kvs source of None \<Rightarrow> JNull | Some v \<Rightarrow> v)) kvss"
  using column_rows_from [OF assms, of E k kvss] by (simp add: values_under_def column_def)

subsection \<open>A record that is not a dict\<close>

lemma py_get_default_non_mapping:
  assumes "\<And>kvs. coin \<noteq> JObj kvs"
  shows "py_get_default coin k d = Inl (Exn AttributeError [Lit ''object has no attribute get''])"
  using assms by (cases coin) auto

lemma extract_fields_non_mapping:
  assumes "\<And>kvs. coin \<noteq> JObj kvs"
  shows "extract_fields coin field_map = Inl (Exn AttributeError [Lit ''object has no attribute get''])"
  by (simp add: field_map_def py_get_def py_get_default_non_mapping [OF assms])

lemma process_loop_non_mapping:
  assumes "\<And>kvs. coin \<noteq> JObj kvs"
  shows "process_loop E (coin # rest) acc w =
         (Inl (Exn AttributeError [Lit ''object has no attribute get'']), w\<lparr>ticks := Suc (ticks w)\<rparr>)"
  by (simp add: io_defs processed_coin_def now_def extract_fields_non_mapping [OF assms]
        py_get_default_non_mapping [OF assms])

lemma process_loop_append_mappings:
  "process_loop E (map JObj kvss @ rest) acc w =
   process_loop E rest (acc @ rows_from E (ticks w) kvss) (w\<lparr>ticks := ticks w + length kvss\<rparr>)"
proof (induction kvss arbitrary: acc w)
  case Nil
  then show ?case by simp
next
  case (Cons kvs kvss)
  show ?case
    using Cons.IH [of "acc @ [row_of E (ticks w) kvs]" "w\<lparr>ticks := Suc (ticks w)\<rparr>"]
    by (simp add: io_defs processed_coin_mapping)
qed

lemma process_market_data_non_mapping:
  assumes "\<And>kvs. coin \<noteq> JObj kvs"
  shows "process_market_data E self (JArr (map JObj kvss @ coin # rest)) w =
         (Inl (Exn AttributeError [Lit ''object has no attribute get'']),
          w\<lparr>ticks := Suc (ticks w + length kvss)\<rparr>)"
  by (simp add: process_market_data_def DataFrame_def Let_def io_defs process_loop_append_mappings
        process_loop_non_mapping [OF assms] del: process_loop.simps)

subsection \<open>The request of the concrete run\<close>

lemma example_rate:
  "config_path (config example_fetcher) [''api'', ''coingecko'', ''rate_limit_per_minute''] = Inr (JInt 30)"
  by (simp add: example_fetcher_def example_config_def)

lemma example_endpoint:
  "config_path (config example_fetcher) [''api'', ''coingecko'', ''endpoints'', ''market_data''] =
   Inr (JStr ''/coins/markets'')"
  by (simp add: example_fetcher_def example_config_def)

lemma example_join: "py_join '','' (tracked_coins example_fetcher) = Inr ''bitcoin,ethereum''"
  by (simp add: example_fetcher_def py_join_def)

lemma example_len: "py_len (tracked_coins example_fetcher) = Inr 2"
  by (simp add: example_fetcher_def)

lemma example_request_url: "request_url example_fetcher (JStr ''/coins/markets'') = example_url"
  by (simp add: request_url_def example_url_def example_fetcher_def)

lemma example_timeout: "timeout example_fetcher = JInt 30"
  by (simp add: example_fetcher_def)

text \<open>The four outcomes of the request, for any outside that gives the answer.\<close>

lemma make_api_request_raises:
  assumes "requests_get E (request_url self endpoint) params (timeout self) = Inl e"
    and "is_RequestException (exn_class e)"
  shows "make_api_request E self endpoint params w =
         (Inr JNull, w\<lparr>trace := trace w @
            [Log INFO (Lit ''Making API request to: '' # request_url self endpoint),
             HttpGet (request_url self endpoint) params (timeout self),
             Log ERROR ([Lit ''API request failed for ''] @ request_url self endpoint @
                        [Lit '': '', ExcStr e])]\<rparr>)"
  using assms
  by (simp add: make_api_request_def Let_def io_defs request_url_def)

lemma make_api_request_status:
  assumes "requests_get E (request_url self endpoint) params (timeout self) = Inr r"
    and "400 \<le> status_code r" and "status_code r < 600"
  shows "make_api_request E self endpoint params w =
         (Inr JNull, w\<lparr>trace := trace w @
            [Log INFO (Lit ''Making API request to: '' # request_url self endpoint),
             HttpGet (request_url self endpoint) params (timeout self),
             Log ERROR ([Lit ''API request failed for ''] @ request_url self endpoint @
                [Lit '': '',
                 ExcStr (Exn HTTPError
                   ([Num (status_code r),
                     Lit (if status_code r < 500 then '' Client Error: '' else '' Server Error: ''),
                     Lit (reason r), Lit '' for url: ''] @ request_url self endpoint))])]\<rparr>)"
  using assms
  by (simp add: make_api_request_def Let_def io_defs request_url_def raise_for_status_def)

lemma make_api_request_undecodable:
  assumes "requests_get E (request_url self endpoint) params (timeout self) = Inr r"
    and "\<not> (400 \<le> status_code r \<and> status_code r < 600)"
    and "config_path (config self) [''api'', ''coingecko'', ''rate_limit_per_minute''] = Inr rate"
    and "div60 rate = Inr d" and "0 \<le> d"
    and "body r = Inl e"
    and "is_RequestException (exn_class e) \<or> is_ValueError (exn_class e)"
  shows "make_api_request E self endpoint params w =
         (Inr JNull, w\<lparr>trace := trace w @
            [Log INFO (Lit ''Making API request to: '' # request_url self endpoint),
             HttpGet (request_url self endpoint) params (timeout self),
             Sleep d,
             Log ERROR
               ([Lit (if is_RequestException (exn_class e)
                      then ''API request failed for '' else ''JSON parsing failed for '')] @
                request_url self endpoint @ [Lit '': '', ExcStr e])]\<rparr>)"
  using assms
  by (auto simp: make_api_request_def Let_def io_defs request_url_def raise_for_status_def
        time_sleep_def simp del: config_path.simps)

lemma make_api_request_decoded:
  assumes "requests_get E (request_url self endpoint) params (timeout self) = Inr r"
    and "\<not> (400 \<le> status_code r \<and> status_code r < 600)"
    and "config_path (config self) [''api'', ''coingecko'', ''rate_limit_per_minute''] = Inr rate"
    and "div60 rate = Inr d" and "0 \<le> d"
    and "body r = Inr v"
  shows "make_api_request E self endpoint params w =
         (Inr v, w\<lparr>trace := trace w @
            [Log INFO (Lit ''Making API request to: '' # request_url self endpoint),
             HttpGet (request_url self endpoint) params (timeout self),
             Sleep d]\<rparr>)"
  using assms
  by (auto simp: make_api_request_def Let_def io_defs request_url_def raise_for_status_def
        time_sleep_def simp del: config_path.simps)

lemma fetch_market_data_example:
  "fetch_market_data E example_fetcher w =
   make_api_request E example_fetcher (JStr ''/coins/markets'') example_params
     (w\<lparr>trace := trace w @
        [Log INFO [Lit ''Fetching market data for '', Num 2, Lit '' cryptocurrencies'']]\<rparr>)"
  by (simp add: fetch_market_data_def example_endpoint example_join example_len io_defs Let_def
       example_params_def del: config_path.simps)

lemma errors_logged_append: "errors_logged (xs @ ys) = errors_logged xs @ errors_logged ys"
  by (induction xs rule: errors_logged.induct) simp_all

subsection \<open>The path of the artifact\<close>

lemma digit_not_slash: "digit n \<noteq> CHR ''/''"
proof -
  have "n mod 10 < length ''0123456789''" by simp
  then have "digit n \<in> set ''0123456789''"
    unfolding digit_def by (rule nth_mem)
  then show ?thesis by auto
qed

lemma pad_no_slash: "CHR ''/'' \<notin> set (pad k n)"
  by (induction k arbitrary: n) (auto simp: digit_not_slash [symmetric])

lemma strftime_compact_no_slash: "CHR ''/'' \<notin> set (strftime_compact t)"
  by (simp add: strftime_compact_def pad_no_slash)

lemma dirname_artifact_path: "dirname (artifact_path t) = ''data/raw''"
proof -
  let ?name = "''crypto_market_data_'' @ strftime_compact t @ ''.csv''"
  have no: "c \<noteq> CHR ''/''" if "c \<in> set (rev ?name)" for c
    using that strftime_compact_no_slash [of t] by auto
  have split: "rev (artifact_path t) = rev ?name @ rev ''data/raw/''"
    by (simp add: artifact_path_def)
  have "dropWhile (\<lambda>c. c \<noteq> CHR ''/'') (rev ?name @ rev ''data/raw/'') =
        dropWhile (\<lambda>c. c \<noteq> CHR ''/'') (rev ''data/raw/'')"
    by (rule dropWhile_append2) (rule no)
  also have "\<dots> = ''/war/atad''" by simp
  finally have dw: "dropWhile (\<lambda>c. c \<noteq> CHR ''/'') (rev (artifact_path t)) = ''/war/atad''"
    unfolding split .
  show ?thesis unfolding dirname_def dw by simp
qed

subsection \<open>\<^verbatim>\<open>save_to_csv\<close> on a frame with rows\<close>

lemma save_to_csv_path:
  "save_to_csv E self df =
     (if df = []
      then seq_io (logger WARNING [Lit ''No data to save'']) (ret_io [])
      else
        bind_io (now E) (\<lambda>t.
        try_except
          (seq_io (emit (MakeDirs ''data/raw''))
          (seq_io (may_raise (makedirs E ''data/raw''))
          (seq_io (emit (ToCsv (artifact_path t) df))
          (seq_io (may_raise (to_csv E (artifact_path t) df))
          (seq_io (logger INFO [Lit ''Data saved to '', Lit (artifact_path t)])
                  (ret_io (artifact_path t)))))))
          (\<lambda>e.
             seq_io (logger ERROR [Lit ''Error saving data to CSV: '', ExcStr e])
                    (ret_io []))))"
proof -
  have p: "''data'' @ ''/'' @ ''raw'' @ ''/'' @ ''crypto_market_data_'' @ strftime_compact t @ ''.csv'' =
           artifact_path t" for t
    by (simp add: artifact_path_def)
  show ?thesis
    by (simp only: save_to_csv_def Let_def p dirname_artifact_path)
qed

lemma save_to_csv_written:
  assumes "df \<noteq> []"
    and "makedirs E ''data/raw'' = None"
    and "to_csv E (artifact_path (clock E (ticks w))) df = None"
  shows "save_to_csv E self df w =
         (Inr (artifact_path (clock E (ticks w))),
          w\<lparr>ticks := Suc (ticks w),
            trace := trace w @
              [MakeDirs ''data/raw'',
               ToCsv (artifact_path (clock E (ticks w))) df,
               Log INFO [Lit ''Data saved to '', Lit (artifact_path (clock E (ticks w)))]]\<rparr>)"
  using assms by (simp add: save_to_csv_path now_def io_defs)

lemma save_to_csv_makedirs_fails:
  assumes "df \<noteq> []"
    and "makedirs E ''data/raw'' = Some e"
  shows "save_to_csv E self df w =
         (Inr [],
          w\<lparr>ticks := Suc (ticks w),
            trace := trace w @
              [MakeDirs ''data/raw'',
               Log ERROR [Lit ''Error saving data to CSV: '', ExcStr e]]\<rparr>)"
  using assms by (simp add: save_to_csv_path now_def io_defs)

lemma save_to_csv_to_csv_fails:
  assumes "df \<noteq> []"
    and "makedirs E ''data/raw'' = None"
    and "to_csv E (artifact_path (clock E (ticks w))) df = Some e"
  shows "save_to_csv E self df w =
         (Inr [],
          w\<lparr>ticks := Suc (ticks w),
            trace := trace w @
              [MakeDirs ''data/raw'',
               ToCsv (artifact_path (clock E (ticks w))) df,
               Log ERROR [Lit ''Error saving data to CSV: '', ExcStr e]]\<rparr>)"
  using assms by (simp add: save_to_csv_path now_def io_defs)

lemma artifact_path_not_empty: "artifact_path t \<noteq> []"
  by (simp add: artifact_path_def)

subsection \<open>The ways through \<^verbatim>\<open>fetch_and_save_data\<close>\<close>

lemma fetch_and_save_data_fetch_raises:
  assumes "fetch_market_data E self (started w) = (Inl e, w2)"
  shows "fetch_and_save_data E self w =
         (Inr False, w2\<lparr>trace := trace w2 @
            [Log ERROR [Lit ''Unexpected error in fetch_and_save_data: '', ExcStr e]]\<rparr>)"
  using assms by (simp add: fetch_and_save_data_def io_defs started_def)

lemma fetch_and_save_data_fetch_falsy:
  assumes "fetch_market_data E self (started w) = (Inr raw_data, w2)"
    and "\<not> truthy raw_data"
  shows "fetch_and_save_data E self w =
         (Inr False, w2\<lparr>trace := trace w2 @ [Log ERROR [Lit ''Failed to fetch market data'']]\<rparr>)"
  using assms by (simp add: fetch_and_save_data_def io_defs started_def)

lemma fetch_and_save_data_process_raises:
  assumes "fetch_market_data E self (started w) = (Inr raw_data, w2)"
    and "truthy raw_data"
    and "process_market_data E self raw_data w2 = (Inl e, w3)"
  shows "fetch_and_save_data E self w =
         (Inr False, w3\<lparr>trace := trace w3 @
            [Log ERROR [Lit ''Unexpected error in fetch_and_save_data: '', ExcStr e]]\<rparr>)"
  using assms by (simp add: fetch_and_save_data_def io_defs started_def)

lemma fetch_and_save_data_process_empty:
  assumes "fetch_market_data E self (started w) = (Inr raw_data, w2)"
    and "truthy raw_data"
    and "process_market_data E self raw_data w2 = (Inr [], w3)"
  shows "fetch_and_save_data E self w =
         (Inr False, w3\<lparr>trace := trace w3 @ [Log ERROR [Lit ''No data was processed'']]\<rparr>)"
  using assms by (simp add: fetch_and_save_data_def io_defs started_def)

lemma fetch_and_save_data_save_empty:
  assumes "fetch_market_data E self (started w) = (Inr raw_data, w2)"
    and "truthy raw_data"
    and "process_market_data E self raw_data w2 = (Inr df, w3)"
    and "df \<noteq> []"
    and "save_to_csv E self df w3 = (Inr [], w4)"
  shows "fetch_and_save_data E self w =
         (Inr False, w4\<lparr>trace := trace w4 @ [Log ERROR [Lit ''Failed to save data'']]\<rparr>)"
  using assms by (simp add: fetch_and_save_data_def io_defs started_def)

lemma fetch_and_save_data_saved:
  assumes "fetch_market_data E self (started w) = (Inr raw_data, w2)"
    and "truthy raw_data"
    and "process_market_data E self raw_data w2 = (Inr df, w3)"
    and "df \<noteq> []"
    and "save_to_csv E self df w3 = (Inr filepath, w4)"
    and "filepath \<noteq> []"
  shows "fetch_and_save_data E self w =
         (Inr True, w4\<lparr>trace := trace w4 @
            [Log INFO [Lit ''Successfully completed data fetch and save. File: '', Lit filepath]]\<rparr>)"
  using assms by (simp add: fetch_and_save_data_def io_defs started_def)

subsection \<open>The ways through \<^verbatim>\<open>main\<close>\<close>





subsection \<open>Facts of the concrete run\<close>

lemma example_env_fields:
  "requests_get (example_env answer) url params t = answer"
  "makedirs (example_env answer) p = None"
  "to_csv (example_env answer) p df = None"
  "clock (example_env answer) = example_clock"
  by (simp_all add: example_env_def)

lemma example_div60: "div60 (JInt 30) = Inr 2"
  by simp

lemma fetch_market_data_example_answered:
  assumes "\<And>url params t. requests_get E url params t = ok_response v"
  shows "fetch_market_data E example_fetcher w =
   (Inr v, w\<lparr>trace := trace w @
      [Log INFO [Lit ''Fetching market data for '', Num 2, Lit '' cryptocurrencies''],
       Log INFO (Lit ''Making API request to: '' # example_url),
       HttpGet example_url example_params (JInt 30),
       Sleep 2]\<rparr>)"
proof -
  let ?r = "\<lparr>status_code = 200, reason = ''OK'', body = Inr v\<rparr>"
  have get: "requests_get E (request_url example_fetcher (JStr ''/coins/markets''))
               example_params (timeout example_fetcher) = Inr ?r"
    by (simp add: assms ok_response_def)
  have st: "\<not> (400 \<le> status_code ?r \<and> status_code ?r < 600)" by simp
  have b: "body ?r = Inr v" by simp
  have nn: "(0::rat) \<le> 2" by simp
  show ?thesis
    by (simp add: fetch_market_data_example
          make_api_request_decoded [OF get st example_rate example_div60 nn b]
          example_request_url example_timeout)
qed

lemma fetch_market_data_example_decoded:
  "fetch_market_data (example_env (ok_response v)) example_fetcher w =
   (Inr v, w\<lparr>trace := trace w @
      [Log INFO [Lit ''Fetching market data for '', Num 2, Lit '' cryptocurrencies''],
       Log INFO (Lit ''Making API request to: '' # example_url),
       HttpGet example_url example_params (JInt 30),
       Sleep 2]\<rparr>)"
  by (rule fetch_market_data_example_answered) (simp add: example_env_fields)

lemma example_answers:
  "make_api_request (example_env timeout_answer) example_fetcher (JStr ''/coins/markets'') params w =
     (Inr JNull, w\<lparr>trace := trace w @
        [Log INFO (Lit ''Making API request to: '' # example_url),
         HttpGet example_url params (JInt 30),
         Log ERROR ([Lit ''API request failed for ''] @ example_url @
           [Lit '': '', ExcStr (Exn Timeout [Lit ''Read timed out''])])]\<rparr>)"
  "make_api_request (example_env server_error_answer) example_fetcher (JStr ''/coins/markets'') params w =
     (Inr JNull, w\<lparr>trace := trace w @
        [Log INFO (Lit ''Making API request to: '' # example_url),
         HttpGet example_url params (JInt 30),
         Log ERROR ([Lit ''API request failed for ''] @ example_url @
           [Lit '': '',
            ExcStr (Exn HTTPError
              ([Num 500, Lit '' Server Error: '', Lit ''Internal Server Error'', Lit '' for url: ''] @
               example_url))])]\<rparr>)"
  "make_api_request (example_env undecodable_answer) example_fetcher (JStr ''/coins/markets'') params w =
     (Inr JNull, w\<lparr>trace := trace w @
        [Log INFO (Lit ''Making API request to: '' # example_url),
         HttpGet example_url params (JInt 30),
         Sleep 2,
         Log ERROR ([Lit ''JSON parsing failed for ''] @ example_url @
           [Lit '': '', ExcStr (Exn JSONDecodeError [Lit ''Expecting value''])])]\<rparr>)"
proof -
  let ?u = "request_url example_fetcher (JStr ''/coins/markets'')"
  let ?t = "timeout example_fetcher"
  have a: "requests_get (example_env timeout_answer) ?u params ?t = Inl (Exn Timeout [Lit ''Read timed out''])"
    by (simp add: example_env_fields timeout_answer_def)
  have a': "is_RequestException (exn_class (Exn Timeout [Lit ''Read timed out'']))" by simp
  show "make_api_request (example_env timeout_answer) example_fetcher (JStr ''/coins/markets'') params w =
     (Inr JNull, w\<lparr>trace := trace w @
        [Log INFO (Lit ''Making API request to: '' # example_url),
         HttpGet example_url params (JInt 30),
         Log ERROR ([Lit ''API request failed for ''] @ example_url @
           [Lit '': '', ExcStr (Exn Timeout [Lit ''Read timed out''])])]\<rparr>)"
    by (simp add: make_api_request_raises [OF a a'] example_request_url example_timeout)
  let ?r = "\<lparr>status_code = 500, reason = ''Internal Server Error'', body = Inr (JArr [])\<rparr>"
  have b: "requests_get (example_env server_error_answer) ?u params ?t = Inr ?r"
    by (simp add: example_env_fields server_error_answer_def)
  have b1: "400 \<le> status_code ?r" and b2: "status_code ?r < 600" by simp_all
  show "make_api_request (example_env server_error_answer) example_fetcher (JStr ''/coins/markets'') params w =
     (Inr JNull, w\<lparr>trace := trace w @
        [Log INFO (Lit ''Making API request to: '' # example_url),
         HttpGet example_url params (JInt 30),
         Log ERROR ([Lit ''API request failed for ''] @ example_url @
           [Lit '': '',
            ExcStr (Exn HTTPError
              ([Num 500, Lit '' Server Error: '', Lit ''Internal Server Error'', Lit '' for url: ''] @
               example_url))])]\<rparr>)"
    by (simp add: make_api_request_status [OF b b1 b2] example_request_url example_timeout)
  let ?e = "Exn JSONDecodeError [Lit ''Expecting value'']"
  let ?s = "\<lparr>status_code = 200, reason = ''OK'', body = Inl ?e\<rparr>"
  have c: "requests_get (example_env undecodable_answer) ?u params ?t = Inr ?s"
    by (simp add: example_env_fields undecodable_answer_def)
  have c1: "\<not> (400 \<le> status_code ?s \<and> status_code ?s < 600)" by simp
  have c2: "(0::rat) \<le> 2" by simp
  have c3: "body ?s = Inl ?e" by simp
  have c4: "is_RequestException (exn_class ?e) \<or> is_ValueError (exn_class ?e)" by simp
  show "make_api_request (example_env undecodable_answer) example_fetcher (JStr ''/coins/markets'') params w =
     (Inr JNull, w\<lparr>trace := trace w @
        [Log INFO (Lit ''Making API request to: '' # example_url),
         HttpGet example_url params (JInt 30),
         Sleep 2,
         Log ERROR ([Lit ''JSON parsing failed for ''] @ example_url @
           [Lit '': '', ExcStr (Exn JSONDecodeError [Lit ''Expecting value''])])]\<rparr>)"
    by (simp add: make_api_request_undecodable [OF c c1 example_rate example_div60 c2 c3 c4]
          example_request_url example_timeout)
qed


lemma full_disk_env_fields:
  "requests_get (full_disk_env answer) url params t = answer"
  "makedirs (full_disk_env answer) p = None"
  "to_csv (full_disk_env answer) p df = Some (Exn OSError [Lit ''No space left on device''])"
  by (simp_all add: full_disk_env_def example_env_def)

lemma pair_with_snd: "p = (a, x) \<Longrightarrow> p = (a, snd p)"
  by simp

text \<open>
  The run in which nothing fails: two records fetched, two rows normalized with the first
  two readings of the clock, one file written under the name of the third reading.
\<close>

lemma example_run_succeeds:
  "fst (fetch_and_save_data (example_env (ok_response (JArr [bitcoin, ethereum]))) example_fetcher
          initial_world) = Inr True \<and>
   fs_writes (trace (snd (fetch_and_save_data (example_env (ok_response (JArr [bitcoin, ethereum])))
          example_fetcher initial_world))) =
     [MakeDirs ''data/raw'',
      ToCsv ''data/raw/crypto_market_data_20240517_093002.csv''
        (rows_from (example_env (ok_response (JArr [bitcoin, ethereum]))) 0
           [[(''id'', JStr ''bitcoin''), (''symbol'', JStr ''btc''), (''current_price'', JInt 67000)],
            [(''id'', JStr ''ethereum''), (''symbol'', JStr ''eth''), (''current_price'', JStr ''abc'')]])]"
proof -
  let ?kvss = "[[(''id'', JStr ''bitcoin''), (''symbol'', JStr ''btc''), (''current_price'', JInt 67000)],
               [(''id'', JStr ''ethereum''), (''symbol'', JStr ''eth''), (''current_price'', JStr ''abc'')]]"
  let ?raw = "JArr [bitcoin, ethereum]"
  let ?E = "example_env (ok_response ?raw)"
  let ?w2 = "snd (fetch_market_data ?E example_fetcher (started initial_world))"
  let ?df = "rows_from ?E (ticks ?w2) ?kvss"
  let ?w3 = "snd (process_market_data ?E example_fetcher ?raw ?w2)"
  let ?p = "artifact_path (clock ?E (ticks ?w3))"
  let ?w4 = "snd (save_to_csv ?E example_fetcher ?df ?w3)"
  have coins: "[bitcoin, ethereum] = map JObj ?kvss"
    by (simp add: bitcoin_def ethereum_def)
  have ne: "?kvss \<noteq> []" by simp
  have normalized: "process_market_data E example_fetcher ?raw w =
      (Inr (rows_from E (ticks w) ?kvss),
       w\<lparr>ticks := ticks w + length ?kvss,
         trace := trace w @
           [Log INFO [Lit ''Processed data for '', Num (int (length ?kvss)), Lit '' cryptocurrencies'']]\<rparr>)"
    for E w
    by (simp only: coins process_market_data_mappings [OF ne])
  note fetched' = fetch_market_data_example_decoded [of ?raw "started initial_world"]
  have fetched: "fetch_market_data ?E example_fetcher (started initial_world) = (Inr ?raw, ?w2)"
    by (rule pair_with_snd) (rule fetched')
  have tr: "truthy ?raw" by simp
  have processed: "process_market_data ?E example_fetcher ?raw ?w2 = (Inr ?df, ?w3)"
    by (rule pair_with_snd) (rule normalized)
  have rows: "?df \<noteq> []" by simp
  have mk: "makedirs ?E ''data/raw'' = None"
    by (simp add: example_env_fields)
  have tc: "to_csv ?E ?p ?df = None"
    by (simp add: example_env_fields)
  note saved' = save_to_csv_written [OF rows mk tc, of example_fetcher]
  have saved: "save_to_csv ?E example_fetcher ?df ?w3 = (Inr ?p, ?w4)"
    by (rule pair_with_snd) (rule saved')
  note run = fetch_and_save_data_saved [OF fetched tr processed rows saved artifact_path_not_empty]
  have t2: "ticks ?w2 = 0"
    unfolding fetched' by (simp add: started_def initial_world_def)
  have t3: "ticks ?w3 = 2"
    unfolding normalized by (simp add: t2)
  have f2: "fs_writes (trace ?w2) = []"
    unfolding fetched' by (simp add: started_def initial_world_def fs_writes_def)
  have f3: "fs_writes (trace ?w3) = []"
    unfolding normalized using f2 by (simp add: fs_writes_def)
  have f4: "fs_writes (trace ?w4) = [MakeDirs ''data/raw'', ToCsv ?p ?df]"
    unfolding saved' using f3 by (simp add: fs_writes_def)
  have path: "artifact_path (clock ?E 2) = ''data/raw/crypto_market_data_20240517_093002.csv''"
    by code_simp
  have first: "fst (fetch_and_save_data ?E example_fetcher initial_world) = Inr True"
    by (simp only: run fst_conv)
  have "fs_writes (trace (snd (fetch_and_save_data ?E example_fetcher initial_world))) =
             [MakeDirs ''data/raw'', ToCsv ?p ?df]"
    unfolding run using f4 by (simp add: fs_writes_def)
  then have second: "fs_writes (trace (snd (fetch_and_save_data ?E example_fetcher initial_world))) =
     [MakeDirs ''data/raw'',
      ToCsv ''data/raw/crypto_market_data_20240517_093002.csv'' (rows_from ?E 0 ?kvss)]"
    by (simp only: t2 t3 path)
  from first second show ?thesis by (intro conjI)
qed

section \<open>The claims\<close>

subsection \<open>C1: the timestamps of a run\<close>

text \<open>
  C1 says that all rows of a run carry one timestamp, taken once when normalization
  starts. The loop reads the clock once for each record instead. On the two records
  below, with a clock that moves by a second between readings, the two rows carry
  different timestamps.
\<close>

theorem timestamp_shared_counterexample:
  "map_sum id (column ''timestamp'')
     (fst (process_market_data (example_env (ok_response JNull)) example_fetcher
        (JArr [bitcoin, ethereum]) initial_world)) =
   Inr [Some (JStr ''2024-05-17T09:30:00''), Some (JStr ''2024-05-17T09:30:01'')]"
proof -
  let ?kvss = "[[(''id'', JStr ''bitcoin''), (''symbol'', JStr ''btc''), (''current_price'', JInt 67000)],
               [(''id'', JStr ''ethereum''), (''symbol'', JStr ''eth''), (''current_price'', JStr ''abc'')]]"
  have coins: "[bitcoin, ethereum] = map JObj ?kvss"
    by (simp add: bitcoin_def ethereum_def)
  have ne: "?kvss \<noteq> []" by simp
  have ev: "map (\<lambda>k. Some (JStr (isoformat (clock (example_env (ok_response JNull)) k))))
              [ticks initial_world..<ticks initial_world + length ?kvss] =
            [Some (JStr ''2024-05-17T09:30:00''), Some (JStr ''2024-05-17T09:30:01'')]"
    by code_simp
  show ?thesis
    unfolding coins
    by (simp only: process_market_data_mappings [OF ne] column_timestamp_rows_from fst_conv map_sum.simps ev)
qed

text \<open>
  C1 as amended: for every non-empty list of records that are all dicts, normalization
  returns, and the \<open>timestamp\<close> column holds, row by row, the successive readings of the
  clock taken during the loop, one reading for each record, in ISO format. The rows
  share a timestamp only where these readings coincide.
\<close>

theorem process_market_data_timestamps:
  assumes "kvss \<noteq> []"
  shows "map_sum id (column ''timestamp'') (fst (process_market_data E self (JArr (map JObj kvss)) w)) =
         Inr (map (\<lambda>k. Some (JStr (isoformat (clock E k)))) [ticks w..<ticks w + length kvss])"
  using assms by (simp add: process_market_data_mappings column_timestamp_rows_from)

theorem process_market_data_timestamps_witness:
  "[[(''id'', JStr ''bitcoin'')], [(''id'', JStr ''ethereum'')]] \<noteq> [] \<and>
   map_sum id (column ''timestamp'')
     (fst (process_market_data (example_env (ok_response JNull)) example_fetcher
        (JArr (map JObj [[(''id'', JStr ''bitcoin'')], [(''id'', JStr ''ethereum'')]])) initial_world)) =
   Inr [Some (JStr ''2024-05-17T09:30:00''), Some (JStr ''2024-05-17T09:30:01'')]"
proof -
  have ne: "[[(''id'', JStr ''bitcoin'')], [(''id'', JStr ''ethereum'')]] \<noteq> ([] :: (string \<times> json) list list)"
    by simp
  have ev: "map (\<lambda>k. Some (JStr (isoformat (clock (example_env (ok_response JNull)) k))))
              [ticks initial_world..<ticks initial_world + length [[(''id'', JStr ''bitcoin'')], [(''id'', JStr ''ethereum'')]]] =
            [Some (JStr ''2024-05-17T09:30:00''), Some (JStr ''2024-05-17T09:30:01'')]"
    by code_simp
  from process_market_data_timestamps [OF ne, of "example_env (ok_response JNull)" example_fetcher initial_world]
  show ?thesis unfolding ev by simp
qed

subsection \<open>C2: a record that is not a mapping\<close>

text \<open>
  C2 says that a record that is not a mapping is skipped and logged, and that the rows of
  the other records are returned. The loop has the \<^verbatim>\<open>try\<close> and the \<^verbatim>\<open>continue\<close> for
  that, but its handler calls \<^verbatim>\<open>coin.get('id', 'unknown')\<close> on the same record to build
  the log message, and that call raises again, outside the \<^verbatim>\<open>try\<close>. On the list
  \<^verbatim>\<open>[bitcoin, "oops", ethereum]\<close> normalization raises \<open>AttributeError\<close> with nothing
  logged, and the whole run ends in failure without a file.
\<close>

theorem non_mapping_record_aborts_run:
  "process_market_data (example_env (ok_response JNull)) example_fetcher
     (JArr [bitcoin, JStr ''oops'', ethereum]) initial_world =
   (Inl (Exn AttributeError [Lit ''object has no attribute get'']), \<lparr>ticks = 2, trace = []\<rparr>) \<and>
   fst (fetch_and_save_data (example_env (ok_response (JArr [bitcoin, JStr ''oops'', ethereum])))
          example_fetcher initial_world) = Inr False \<and>
   fs_writes (trace (snd (fetch_and_save_data
          (example_env (ok_response (JArr [bitcoin, JStr ''oops'', ethereum])))
          example_fetcher initial_world))) = []"
proof -
  let ?kvss = "[[(''id'', JStr ''bitcoin''), (''symbol'', JStr ''btc''), (''current_price'', JInt 67000)]]"
  let ?raw = "JArr [bitcoin, JStr ''oops'', ethereum]"
  let ?err = "Exn AttributeError [Lit ''object has no attribute get'']"
  have coins: "[bitcoin, JStr ''oops'', ethereum] = map JObj ?kvss @ JStr ''oops'' # [ethereum]"
    by (simp add: bitcoin_def)
  have str: "JStr ''oops'' \<noteq> JObj kvs" for kvs by simp
  have raises: "process_market_data E example_fetcher ?raw w =
                (Inl ?err, w\<lparr>ticks := Suc (ticks w + length ?kvss)\<rparr>)" for E w
    by (simp only: coins process_market_data_non_mapping [OF str])
  have w0: "initial_world\<lparr>ticks := Suc (ticks initial_world + length ?kvss)\<rparr> = \<lparr>ticks = 2, trace = []\<rparr>"
    by (simp add: initial_world_def)
  have first: "process_market_data (example_env (ok_response JNull)) example_fetcher ?raw initial_world =
               (Inl ?err, \<lparr>ticks = 2, trace = []\<rparr>)"
    by (simp only: raises w0)
  have tr: "truthy ?raw" by simp
  note run = fetch_and_save_data_process_raises
    [OF fetch_market_data_example_decoded [of ?raw "started initial_world"] tr raises]
  have second: "fst (fetch_and_save_data (example_env (ok_response ?raw)) example_fetcher initial_world) =
                Inr False"
    by (simp only: run fst_conv)
  have third: "fs_writes (trace (snd (fetch_and_save_data (example_env (ok_response ?raw))
                 example_fetcher initial_world))) = []"
    unfolding run by (simp add: started_def initial_world_def fs_writes_def)
  from first second third show ?thesis by (intro conjI)
qed

subsection \<open>C3: an empty array from the fetch stage\<close>

text \<open>
  C3 says that an empty array from the fetch stage is reported as a failure of the
  normalize stage. The orchestrator tests \<^verbatim>\<open>if not raw_data\<close> right after the fetch, and
  an empty list is falsy: the only error logged in the run below is the one of the fetch
  stage, and normalization is never called.
\<close>

theorem empty_array_stage_counterexample:
  "errors_logged (trace (snd (fetch_and_save_data (example_env (ok_response (JArr [])))
      example_fetcher initial_world))) =
   [[Lit ''Failed to fetch market data'']]"
proof -
  have falsy: "\<not> truthy (JArr [])" by simp
  note run = fetch_and_save_data_fetch_falsy
    [OF fetch_market_data_example_decoded [of "JArr []" "started initial_world"] falsy]
  show ?thesis
    unfolding run by (simp add: started_def initial_world_def)
qed

text \<open>
  C3 as amended: when the fetch stage returns a decoded, empty array, the orchestrator
  logs \<open>Failed to fetch market data\<close> and returns \<open>False\<close>: the failure is reported
  at the fetch stage, nothing else happens after the fetch, and the run calls neither
  \<^verbatim>\<open>os.makedirs\<close> nor \<^verbatim>\<open>to_csv\<close>, so no artifact is created.
\<close>

theorem empty_array_fails_at_fetch:
  assumes "fetch_market_data E self (started w) = (Inr (JArr []), w')"
  shows "fetch_and_save_data E self w =
           (Inr False, w'\<lparr>trace := trace w' @ [Log ERROR [Lit ''Failed to fetch market data'']]\<rparr>) \<and>
         fs_writes (trace (snd (fetch_and_save_data E self w))) = fs_writes (trace w)"
proof -
  have falsy: "\<not> truthy (JArr [])" by simp
  note run = fetch_and_save_data_fetch_falsy [OF assms falsy]
  have "fs_writes (trace w') = fs_writes (trace (started w))"
    using fetch_market_data_fs [of E self "started w"] assms by simp
  then have "fs_writes (trace (snd (fetch_and_save_data E self w))) = fs_writes (trace w)"
    unfolding run by (simp add: started_def fs_writes_def)
  with run show ?thesis by (intro conjI)
qed

theorem empty_array_fails_at_fetch_witness:
  "fetch_market_data (example_env (ok_response (JArr []))) example_fetcher (started initial_world) =
     (Inr (JArr []),
      (started initial_world)\<lparr>trace := trace (started initial_world) @
        [Log INFO [Lit ''Fetching market data for '', Num 2, Lit '' cryptocurrencies''],
         Log INFO (Lit ''Making API request to: '' # example_url),
         HttpGet example_url example_params (JInt 30),
         Sleep 2]\<rparr>) \<and>
   fst (fetch_and_save_data (example_env (ok_response (JArr []))) example_fetcher initial_world) =
     Inr False \<and>
   fs_writes (trace (snd (fetch_and_save_data (example_env (ok_response (JArr []))) example_fetcher
     initial_world))) = fs_writes (trace initial_world)"
proof -
  note fetched = fetch_market_data_example_decoded [of "JArr []" "started initial_world"]
  note run = empty_array_fails_at_fetch [OF fetched]
  have "fst (fetch_and_save_data (example_env (ok_response (JArr []))) example_fetcher initial_world) =
        Inr False"
    by (simp only: run [THEN conjunct1] fst_conv)
  with fetched run [THEN conjunct2] show ?thesis by (intro conjI)
qed

subsection \<open>C4: the pause after a call\<close>

text \<open>
  C4 says that the client sleeps after every call, whether it succeeded or failed. The
  call of \<^verbatim>\<open>time.sleep\<close> stands inside the \<^verbatim>\<open>try\<close>, after \<^verbatim>\<open>raise_for_status()\<close>: after
  a timeout and after a status 500 the client returns without any pause.
\<close>

theorem sleep_after_failure_counterexample:
  "sleeps (trace (snd (make_api_request (example_env timeout_answer) example_fetcher
      (JStr ''/coins/markets'') example_params initial_world))) = [] \<and>
   sleeps (trace (snd (make_api_request (example_env server_error_answer) example_fetcher
      (JStr ''/coins/markets'') example_params initial_world))) = []"
  by (simp add: example_answers initial_world_def)

text \<open>
  C4 as amended: the client sleeps \<open>60 / rate_limit_per_minute\<close> seconds exactly when
  the request returned a response whose status is not a 4xx or 5xx code (and the
  configured rate gives a length that is not negative); it does so before the body is
  decoded, hence also when decoding then fails. After a transport failure or a 4xx or
  5xx status it returns without sleeping.
\<close>

theorem make_api_request_sleeps:
  "sleeps (trace (snd (make_api_request E self endpoint params w))) =
   sleeps (trace w) @
   (case requests_get E (request_url self endpoint) params (timeout self) of
      Inl e \<Rightarrow> []
    | Inr r \<Rightarrow>
        if 400 \<le> status_code r \<and> status_code r < 600 then []
        else (case config_path (config self) [''api'', ''coingecko'', ''rate_limit_per_minute''] of
                Inl e \<Rightarrow> []
              | Inr rate \<Rightarrow>
                  (case div60 rate of
                     Inl e \<Rightarrow> []
                   | Inr d \<Rightarrow> if d < 0 then [] else [d])))"
  by (simp add: make_api_request_def request_url_def io_defs Let_def time_sleep_def
        raise_for_status_def sleeps_append
      split: sum.splits prod.splits)

theorem make_api_request_sleeps_witness:
  "sleeps (trace (snd (make_api_request (example_env undecodable_answer) example_fetcher
      (JStr ''/coins/markets'') example_params initial_world))) = [2] \<and>
   fst (make_api_request (example_env undecodable_answer) example_fetcher
      (JStr ''/coins/markets'') example_params initial_world) = Inr JNull"
proof -
  have g: "requests_get (example_env undecodable_answer)
             (request_url example_fetcher (JStr ''/coins/markets'')) example_params
             (timeout example_fetcher) =
           Inr \<lparr>status_code = 200, reason = ''OK'',
                 body = Inl (Exn JSONDecodeError [Lit ''Expecting value''])\<rparr>"
    by (simp add: example_env_fields undecodable_answer_def)
  have "sleeps (trace (snd (make_api_request (example_env undecodable_answer) example_fetcher
          (JStr ''/coins/markets'') example_params initial_world))) =
        sleeps (trace initial_world) @ [2]"
    using make_api_request_sleeps [of "example_env undecodable_answer" example_fetcher
      "JStr ''/coins/markets''" example_params initial_world]
    unfolding g example_rate by simp
  then have "sleeps (trace (snd (make_api_request (example_env undecodable_answer) example_fetcher
          (JStr ''/coins/markets'') example_params initial_world))) = [2]"
    by (simp add: initial_world_def)
  moreover have "fst (make_api_request (example_env undecodable_answer) example_fetcher
      (JStr ''/coins/markets'') example_params initial_world) = Inr JNull"
    by (simp only: example_answers fst_conv)
  ultimately show ?thesis by (intro conjI)
qed

subsection \<open>C5: the results of the three classes of failure\<close>

text \<open>
  C5 says that the client returns distinct error results for a transport failure, for
  an HTTP error status and for an undecodable body. The client has one result for all
  of them, \<^verbatim>\<open>None\<close>: the three calls below return the same value.
\<close>

theorem failure_results_distinct_counterexample:
  "fst (make_api_request (example_env timeout_answer) example_fetcher
          (JStr ''/coins/markets'') example_params initial_world) = Inr JNull \<and>
   fst (make_api_request (example_env server_error_answer) example_fetcher
          (JStr ''/coins/markets'') example_params initial_world) = Inr JNull \<and>
   fst (make_api_request (example_env undecodable_answer) example_fetcher
          (JStr ''/coins/markets'') example_params initial_world) = Inr JNull"
  by (simp only: example_answers fst_conv simp_thms)

text \<open>
  C5 as amended: for each of the three classes of failure (the request raises a
  \<^verbatim>\<open>RequestException\<close>, the status is a 4xx or 5xx code, the body cannot be decoded) the
  client returns the same result \<^verbatim>\<open>None\<close>; the classes differ only in the message logged
  at level \<open>ERROR\<close>, which names the URL and the exception: \<open>API request failed\<close> with
  the exception of the transport, or with an \<open>HTTPError\<close> that carries the status code,
  and \<open>JSON parsing failed\<close> for a decode error that is a \<^verbatim>\<open>ValueError\<close> only.
\<close>

theorem make_api_request_failure_results:
  "(requests_get E (request_url self endpoint) params (timeout self) = Inl e \<and>
    is_RequestException (exn_class e) \<longrightarrow>
      fst (make_api_request E self endpoint params w) = Inr JNull \<and>
      errors_logged (trace (snd (make_api_request E self endpoint params w))) =
        errors_logged (trace w) @
        [[Lit ''API request failed for ''] @ request_url self endpoint @ [Lit '': '', ExcStr e]]) \<and>
   (requests_get E (request_url self endpoint) params (timeout self) = Inr r \<and>
    400 \<le> status_code r \<and> status_code r < 600 \<longrightarrow>
      fst (make_api_request E self endpoint params w) = Inr JNull \<and>
      errors_logged (trace (snd (make_api_request E self endpoint params w))) =
        errors_logged (trace w) @
        [[Lit ''API request failed for ''] @ request_url self endpoint @
         [Lit '': '',
          ExcStr (Exn HTTPError
            ([Num (status_code r),
              Lit (if status_code r < 500 then '' Client Error: '' else '' Server Error: ''),
              Lit (reason r), Lit '' for url: ''] @ request_url self endpoint))]]) \<and>
   (requests_get E (request_url self endpoint) params (timeout self) = Inr r \<and>
    \<not> (400 \<le> status_code r \<and> status_code r < 600) \<and>
    config_path (config self) [''api'', ''coingecko'', ''rate_limit_per_minute''] = Inr rate \<and>
    div60 rate = Inr d \<and> 0 \<le> d \<and>
    body r = Inl e' \<and>
    (is_RequestException (exn_class e') \<or> is_ValueError (exn_class e')) \<longrightarrow>
      fst (make_api_request E self endpoint params w) = Inr JNull \<and>
      errors_logged (trace (snd (make_api_request E self endpoint params w))) =
        errors_logged (trace w) @
        [[Lit (if is_RequestException (exn_class e')
               then ''API request failed for '' else ''JSON parsing failed for '')] @
         request_url self endpoint @ [Lit '': '', ExcStr e']])"
proof (intro conjI impI; elim conjE)
  assume a: "requests_get E (request_url self endpoint) params (timeout self) = Inl e"
    and b: "is_RequestException (exn_class e)"
  show "fst (make_api_request E self endpoint params w) = Inr JNull"
    by (simp add: make_api_request_raises [OF a b])
  show "errors_logged (trace (snd (make_api_request E self endpoint params w))) =
        errors_logged (trace w) @
        [[Lit ''API request failed for ''] @ request_url self endpoint @ [Lit '': '', ExcStr e]]"
    by (simp add: make_api_request_raises [OF a b] errors_logged_append)
next
  assume a: "requests_get E (request_url self endpoint) params (timeout self) = Inr r"
    and b: "400 \<le> status_code r" and c: "status_code r < 600"
  show "fst (make_api_request E self endpoint params w) = Inr JNull"
    by (simp add: make_api_request_status [OF a b c])
  show "errors_logged (trace (snd (make_api_request E self endpoint params w))) =
        errors_logged (trace w) @
        [[Lit ''API request failed for ''] @ request_url self endpoint @
         [Lit '': '',
          ExcStr (Exn HTTPError
            ([Num (status_code r),
              Lit (if status_code r < 500 then '' Client Error: '' else '' Server Error: ''),
              Lit (reason r), Lit '' for url: ''] @ request_url self endpoint))]]"
    by (simp add: make_api_request_status [OF a b c] errors_logged_append)
next
  assume a: "requests_get E (request_url self endpoint) params (timeout self) = Inr r"
    and b: "\<not> (400 \<le> status_code r \<and> status_code r < 600)"
    and c: "config_path (config self) [''api'', ''coingecko'', ''rate_limit_per_minute''] = Inr rate"
    and d: "div60 rate = Inr d" and f: "0 \<le> d"
    and g: "body r = Inl e'"
    and h: "is_RequestException (exn_class e') \<or> is_ValueError (exn_class e')"
  note run = make_api_request_undecodable [OF a b c d f g h]
  show "fst (make_api_request E self endpoint params w) = Inr JNull"
    by (simp add: run)
  show "errors_logged (trace (snd (make_api_request E self endpoint params w))) =
        errors_logged (trace w) @
        [[Lit (if is_RequestException (exn_class e')
               then ''API request failed for '' else ''JSON parsing failed for '')] @
         request_url self endpoint @ [Lit '': '', ExcStr e']]"
    by (simp add: run errors_logged_append)
qed

theorem make_api_request_failure_results_witness:
  "errors_logged (trace (snd (make_api_request (example_env timeout_answer) example_fetcher
      (JStr ''/coins/markets'') example_params initial_world))) =
     [[Lit ''API request failed for ''] @ example_url @
      [Lit '': '', ExcStr (Exn Timeout [Lit ''Read timed out''])]] \<and>
   errors_logged (trace (snd (make_api_request (example_env server_error_answer) example_fetcher
      (JStr ''/coins/markets'') example_params initial_world))) =
     [[Lit ''API request failed for ''] @ example_url @
      [Lit '': '',
       ExcStr (Exn HTTPError
         ([Num 500, Lit '' Server Error: '', Lit ''Internal Server Error'', Lit '' for url: ''] @
          example_url))]] \<and>
   errors_logged (trace (snd (make_api_request (example_env undecodable_answer) example_fetcher
      (JStr ''/coins/markets'') example_params initial_world))) =
     [[Lit ''JSON parsing failed for ''] @ example_url @
      [Lit '': '', ExcStr (Exn JSONDecodeError [Lit ''Expecting value''])]]"
proof -
  let ?u = "request_url example_fetcher (JStr ''/coins/markets'')"
  let ?t = "timeout example_fetcher"
  let ?e = "Exn Timeout [Lit ''Read timed out'']"
  let ?r = "\<lparr>status_code = 500, reason = ''Internal Server Error'', body = Inr (JArr [])\<rparr>"
  let ?d = "Exn JSONDecodeError [Lit ''Expecting value'']"
  let ?s = "\<lparr>status_code = 200, reason = ''OK'', body = Inl ?d\<rparr>"
  have none: "errors_logged (trace initial_world) = []"
    by (simp add: initial_world_def)
  have a: "requests_get (example_env timeout_answer) ?u example_params ?t = Inl ?e \<and>
           is_RequestException (exn_class ?e)"
    by (simp add: example_env_fields timeout_answer_def)
  have b: "requests_get (example_env server_error_answer) ?u example_params ?t = Inr ?r \<and>
           400 \<le> status_code ?r \<and> status_code ?r < 600"
    by (simp add: example_env_fields server_error_answer_def)
  have c: "requests_get (example_env undecodable_answer) ?u example_params ?t = Inr ?s \<and>
           \<not> (400 \<le> status_code ?s \<and> status_code ?s < 600) \<and>
           config_path (config example_fetcher) [''api'', ''coingecko'', ''rate_limit_per_minute''] =
             Inr (JInt 30) \<and>
           div60 (JInt 30) = Inr 2 \<and> (0::rat) \<le> 2 \<and>
           body ?s = Inl ?d \<and>
           (is_RequestException (exn_class ?d) \<or> is_ValueError (exn_class ?d))"
    by (simp add: example_env_fields undecodable_answer_def example_rate del: config_path.simps)
  note first = make_api_request_failure_results
    [where E = "example_env timeout_answer" and self = example_fetcher
       and endpoint = "JStr ''/coins/markets''" and params = example_params
       and w = initial_world and e = ?e, THEN conjunct1, rule_format, OF a, THEN conjunct2]
  note second = make_api_request_failure_results
    [where E = "example_env server_error_answer" and self = example_fetcher
       and endpoint = "JStr ''/coins/markets''" and params = example_params
       and w = initial_world and r = ?r, THEN conjunct2, THEN conjunct1, rule_format, OF b,
     THEN conjunct2]
  note third = make_api_request_failure_results
    [where E = "example_env undecodable_answer" and self = example_fetcher
       and endpoint = "JStr ''/coins/markets''" and params = example_params
       and w = initial_world and r = ?s and rate = "JInt 30" and d = 2 and e' = ?d,
     THEN conjunct2, THEN conjunct2, rule_format, OF c, THEN conjunct2]
  from first second third show ?thesis
    by (simp add: none example_request_url)
qed

subsection \<open>C6: the fields of a row\<close>

text \<open>
  C6 says that a field of the wrong type yields null. The loop copies what
  \<^verbatim>\<open>coin.get\<close> returns and never looks at its type: the string \<^verbatim>\<open>"abc"\<close> under
  \<open>current_price\<close> in the second record arrives in the row as it is.
\<close>

theorem wrong_type_field_counterexample:
  "map_sum id (column ''current_price'')
     (fst (process_market_data (example_env (ok_response JNull)) example_fetcher
        (JArr [bitcoin, ethereum]) initial_world)) =
   Inr [Some (JInt 67000), Some (JStr ''abc'')]"
proof -
  let ?kvss = "[[(''id'', JStr ''bitcoin''), (''symbol'', JStr ''btc''), (''current_price'', JInt 67000)],
               [(''id'', JStr ''ethereum''), (''symbol'', JStr ''eth''), (''current_price'', JStr ''abc'')]]"
  have coins: "[bitcoin, ethereum] = map JObj ?kvss"
    by (simp add: bitcoin_def ethereum_def)
  have ne: "?kvss \<noteq> []" by simp
  have price: "(''current_price'', ''current_price'') \<in> set field_map"
    by (simp add: field_map_def)
  have ev: "map (\<lambda>kvs. Some (case map_of kvs ''current_price'' of None \<Rightarrow> JNull | Some v \<Rightarrow> v)) ?kvss =
            [Some (JInt 67000), Some (JStr ''abc'')]"
    by simp
  show ?thesis
    unfolding coins
    by (simp only: process_market_data_mappings [OF ne] column_rows_from [OF price] fst_conv
          map_sum.simps ev)
qed

text \<open>
  C6 as amended: for every non-empty list of records that are all mappings, the loop of
  normalization builds one row dict for each record, in order, and each of the fifteen
  fields of a row dict is read from its source key independently of the others:
  \<^verbatim>\<open>None\<close> when the record lacks the key, and otherwise the value found under the key,
  copied as it is whatever its type. No record is dropped and the run is not aborted:
  \<^verbatim>\<open>process_market_data\<close> returns the frame that \<^verbatim>\<open>pd.DataFrame\<close> builds from these
  row dicts. The types that the library then gives to the columns of the frame are not
  part of the statement.
\<close>

theorem processed_data_fields:
  assumes "kvss \<noteq> []" and "(target, source) \<in> set field_map"
  shows "map_sum id (values_under target) (fst (process_loop E (map JObj kvss) [] w)) =
           Inr (map (\<lambda>kvs. Some (case map_of kvs source of None \<Rightarrow> JNull | Some v \<Rightarrow> v)) kvss) \<and>
         map_sum id length (fst (process_loop E (map JObj kvss) [] w)) = Inr (length kvss) \<and>
         fst (process_market_data E self (JArr (map JObj kvss)) w) =
           map_sum id DataFrame (fst (process_loop E (map JObj kvss) [] w))"
proof (intro conjI)
  show "map_sum id (values_under target) (fst (process_loop E (map JObj kvss) [] w)) =
        Inr (map (\<lambda>kvs. Some (case map_of kvs source of None \<Rightarrow> JNull | Some v \<Rightarrow> v)) kvss)"
    by (simp add: process_loop_mappings values_under_rows_from [OF assms(2)])
  show "map_sum id length (fst (process_loop E (map JObj kvss) [] w)) = Inr (length kvss)"
    by (simp add: process_loop_mappings length_rows_from)
  show "fst (process_market_data E self (JArr (map JObj kvss)) w) =
        map_sum id DataFrame (fst (process_loop E (map JObj kvss) [] w))"
    by (simp add: process_market_data_mappings [OF assms(1)] process_loop_mappings DataFrame_def)
qed

theorem processed_data_fields_witness:
  "[[(''id'', JStr ''bitcoin''), (''current_price'', JInt 67000)], [(''id'', JStr ''tether'')]] \<noteq> [] \<and>
   (''current_price'', ''current_price'') \<in> set field_map \<and>
   map_sum id (values_under ''current_price'')
     (fst (process_loop (example_env (ok_response JNull))
        (map JObj [[(''id'', JStr ''bitcoin''), (''current_price'', JInt 67000)],
                   [(''id'', JStr ''tether'')]]) [] initial_world)) =
   Inr [Some (JInt 67000), Some JNull] \<and>
   map_sum id length
     (fst (process_loop (example_env (ok_response JNull))
        (map JObj [[(''id'', JStr ''bitcoin''), (''current_price'', JInt 67000)],
                   [(''id'', JStr ''tether'')]]) [] initial_world)) = Inr 2"
proof -
  let ?kvss = "[[(''id'', JStr ''bitcoin''), (''current_price'', JInt 67000)], [(''id'', JStr ''tether'')]]"
  have ne: "?kvss \<noteq> []" by simp
  have price: "(''current_price'', ''current_price'') \<in> set field_map"
    by (simp add: field_map_def)
  have ev: "map (\<lambda>kvs. Some (case map_of kvs ''current_price'' of None \<Rightarrow> JNull | Some v \<Rightarrow> v)) ?kvss =
            [Some (JInt 67000), Some JNull]"
    by simp
  have len: "length ?kvss = 2" by simp
  note all = processed_data_fields [OF ne price, of "example_env (ok_response JNull)" initial_world
      example_fetcher]
  from all [THEN conjunct1]
  have first: "map_sum id (values_under ''current_price'')
     (fst (process_loop (example_env (ok_response JNull)) (map JObj ?kvss) [] initial_world)) =
     Inr [Some (JInt 67000), Some JNull]"
    unfolding ev .
  from all [THEN conjunct2, THEN conjunct1]
  have second: "map_sum id length
     (fst (process_loop (example_env (ok_response JNull)) (map JObj ?kvss) [] initial_world)) = Inr 2"
    unfolding len .
  from ne price first second show ?thesis by (intro conjI)
qed

subsection \<open>C7: persisting an empty row set\<close>

text \<open>
  C7: \<^verbatim>\<open>save_to_csv\<close> on an empty frame logs a warning and returns the empty string, the
  result of nothing to write; it does not read the clock and calls neither
  \<^verbatim>\<open>os.makedirs\<close> nor \<^verbatim>\<open>to_csv\<close>, so nothing is written to the file system.
\<close>

theorem save_to_csv_empty:
  "save_to_csv E self [] w =
     (Inr [], w\<lparr>trace := trace w @ [Log WARNING [Lit ''No data to save'']]\<rparr>) \<and>
   fs_writes (trace (snd (save_to_csv E self [] w))) = fs_writes (trace w)"
  by (simp add: save_to_csv_def io_defs fs_writes_def)

theorem save_to_csv_empty_witness:
  "save_to_csv (example_env (ok_response JNull)) example_fetcher [] initial_world =
     (Inr [], \<lparr>ticks = 0, trace = [Log WARNING [Lit ''No data to save'']]\<rparr>) \<and>
   fs_writes (trace (snd (save_to_csv (example_env (ok_response JNull)) example_fetcher []
     initial_world))) = []"
  using save_to_csv_empty [of "example_env (ok_response JNull)" example_fetcher initial_world]
  by (simp add: initial_world_def fs_writes_def)

subsection \<open>C8: no exception leaves the program\<close>



subsection \<open>C9: the two failures of \<^verbatim>\<open>save_to_csv\<close>\<close>

text \<open>
  C9: \<^verbatim>\<open>save_to_csv\<close> returns the empty string on an empty frame, and it returns the
  empty string when \<^verbatim>\<open>os.makedirs\<close> or \<^verbatim>\<open>to_csv\<close> raises on a frame with rows, so the
  result does not tell the two causes apart; and whenever \<^verbatim>\<open>save_to_csv\<close> returns the
  empty string to the orchestrator, the run fails with \<open>Failed to save data\<close>.
\<close>

theorem save_to_csv_failures_same_result:
  "fst (save_to_csv E self [] w) = Inr [] \<and>
   (df \<noteq> [] \<and>
    (makedirs E ''data/raw'' \<noteq> None \<or> to_csv E (artifact_path (clock E (ticks w))) df \<noteq> None) \<longrightarrow>
      fst (save_to_csv E self df w) = Inr []) \<and>
   (fetch_market_data E self (started w) = (Inr raw_data, wa) \<and> truthy raw_data \<and>
    process_market_data E self raw_data wa = (Inr df', wb) \<and> df' \<noteq> [] \<and>
    save_to_csv E self df' wb = (Inr [], wc) \<longrightarrow>
      fetch_and_save_data E self w =
        (Inr False, wc\<lparr>trace := trace wc @ [Log ERROR [Lit ''Failed to save data'']]\<rparr>))"
proof (intro conjI impI)
  show "fst (save_to_csv E self [] w) = Inr []"
    by (simp add: save_to_csv_def io_defs)
next
  assume a: "df \<noteq> [] \<and>
    (makedirs E ''data/raw'' \<noteq> None \<or> to_csv E (artifact_path (clock E (ticks w))) df \<noteq> None)"
  then have ne: "df \<noteq> []" by simp
  show "fst (save_to_csv E self df w) = Inr []"
  proof (cases "makedirs E ''data/raw''")
    case (Some e)
    then show ?thesis by (simp add: save_to_csv_makedirs_fails [OF ne])
  next
    case None
    with a obtain e where "to_csv E (artifact_path (clock E (ticks w))) df = Some e" by auto
    with None show ?thesis by (simp add: save_to_csv_to_csv_fails [OF ne])
  qed
next
  assume "fetch_market_data E self (started w) = (Inr raw_data, wa) \<and> truthy raw_data \<and>
    process_market_data E self raw_data wa = (Inr df', wb) \<and> df' \<noteq> [] \<and>
    save_to_csv E self df' wb = (Inr [], wc)"
  then show "fetch_and_save_data E self w =
        (Inr False, wc\<lparr>trace := trace wc @ [Log ERROR [Lit ''Failed to save data'']]\<rparr>)"
    using fetch_and_save_data_save_empty [of E self w raw_data wa df' wb wc] by blast
qed

theorem save_to_csv_failures_same_result_witness:
  "fst (save_to_csv (full_disk_env (ok_response (JArr [JObj [(''id'', JStr ''bitcoin'')]])))
          example_fetcher [] initial_world) = Inr [] \<and>
   fst (save_to_csv (full_disk_env (ok_response (JArr [JObj [(''id'', JStr ''bitcoin'')]])))
          example_fetcher [[(''coin_id'', JStr ''bitcoin'')]] initial_world) = Inr [] \<and>
   fst (fetch_and_save_data (full_disk_env (ok_response (JArr [JObj [(''id'', JStr ''bitcoin'')]])))
          example_fetcher initial_world) = Inr False"
proof -
  let ?kvs = "[(''id'', JStr ''bitcoin'')]"
  let ?raw = "JArr [JObj ?kvs]"
  let ?E = "full_disk_env (ok_response ?raw)"
  let ?w2 = "snd (fetch_market_data ?E example_fetcher (started initial_world))"
  let ?df = "rows_from ?E (ticks ?w2) [?kvs]"
  let ?w3 = "snd (process_market_data ?E example_fetcher ?raw ?w2)"
  let ?w4 = "snd (save_to_csv ?E example_fetcher ?df ?w3)"
  let ?one = "[[(''coin_id'', JStr ''bitcoin'')]] :: dataframe"
  have answered: "requests_get ?E url params t = ok_response ?raw" for url params t
    by (simp add: full_disk_env_fields)
  have fetched: "fetch_market_data ?E example_fetcher (started initial_world) = (Inr ?raw, ?w2)"
    by (simp add: fetch_market_data_example_answered [OF answered])
  have tr: "truthy ?raw" by simp
  have ne: "[?kvs] \<noteq> []" by simp
  have processed: "process_market_data ?E example_fetcher ?raw ?w2 = (Inr ?df, ?w3)"
    using process_market_data_mappings [OF ne, of ?E example_fetcher ?w2] by simp
  have rows: "?df \<noteq> []" by simp
  have mk: "makedirs ?E ''data/raw'' = None"
    by (simp add: full_disk_env_fields)
  have tc: "to_csv ?E (artifact_path (clock ?E (ticks ?w3))) ?df =
            Some (Exn OSError [Lit ''No space left on device''])"
    by (simp add: full_disk_env_fields)
  have saved: "save_to_csv ?E example_fetcher ?df ?w3 = (Inr [], ?w4)"
    by (rule pair_with_snd) (rule save_to_csv_to_csv_fails [OF rows mk tc])
  have disk: "?one \<noteq> [] \<and>
    (makedirs ?E ''data/raw'' \<noteq> None \<or>
     to_csv ?E (artifact_path (clock ?E (ticks initial_world))) ?one \<noteq> None)"
    by (simp add: full_disk_env_fields)
  note all = save_to_csv_failures_same_result
    [where E = ?E and self = example_fetcher and w = initial_world and df = ?one
       and raw_data = ?raw and wa = ?w2 and df' = ?df and wb = ?w3 and wc = ?w4]
  note first = all [THEN conjunct1]
  note second = all [THEN conjunct2, THEN conjunct1, rule_format, OF disk]
  note third = all [THEN conjunct2, THEN conjunct2, rule_format,
      OF conjI [OF fetched conjI [OF tr conjI [OF processed conjI [OF rows saved]]]]]
  have "fst (fetch_and_save_data ?E example_fetcher initial_world) = Inr False"
    by (simp only: third fst_conv)
  with first second show ?thesis by (intro conjI)
qed

subsection \<open>C10: the exit status\<close>




end
